theory Spec2Isabelle
  imports Complex_Main
begin

section \<open>Conventions\<close>

text \<open>
  The program is \<^verbatim>\<open>main.py\<close>, a Pong variant written against pygame. Python's
  unbounded integers are \<^typ>\<open>int\<close>. Python's floats are modelled by \<^typ>\<open>real\<close>: the
  arithmetic is exact, IEEE rounding is not part of the model. Mutation is state
  passing: a method takes the object and returns the updated one. An exception is the
  \<open>Inl\<close> branch of a sum.
\<close>

datatype py_error =
    FileNotFoundError
  | PermissionError
  | JSONDecodeError
  | KeyError string
  | IndexError
  | ZeroDivisionError
  | ValueError

text \<open>\<^verbatim>\<open>int(x)\<close> on a float truncates towards zero.\<close>

definition py_int :: "real \<Rightarrow> int" where
  "py_int x = (if 0 \<le> x then \<lfloor>x\<rfloor> else \<lceil>x\<rceil>)"


subsection \<open>The random module\<close>

text \<open>
  The generator is the stream of the values that successive calls of
  \<^verbatim>\<open>random.random()\<close> return, each in \<open>[0, 1)\<close>; a call consumes the head. The other
  functions of the module are expressed through one draw each.
\<close>

type_synonym rng = "nat \<Rightarrow> real"

definition random_random :: "rng \<Rightarrow> real \<times> rng" where
  "random_random g = (g 0, \<lambda>n. g (Suc n))"

definition random_uniform :: "real \<Rightarrow> real \<Rightarrow> rng \<Rightarrow> real \<times> rng" where
  "random_uniform a b g = (case random_random g of (u, g') \<Rightarrow> (a + (b - a) * u, g'))"

definition random_randint :: "int \<Rightarrow> int \<Rightarrow> rng \<Rightarrow> int \<times> rng" where
  "random_randint a b g =
     (case random_random g of (u, g') \<Rightarrow> (a + \<lfloor>u * of_int (b - a + 1)\<rfloor>, g'))"

definition random_choice :: "'a list \<Rightarrow> rng \<Rightarrow> py_error + ('a \<times> rng)" where
  "random_choice xs g =
     (if xs = [] then Inl IndexError
      else case random_random g of (u, g') \<Rightarrow>
             Inr (xs ! nat \<lfloor>u * of_nat (length xs)\<rfloor>, g'))"

section \<open>Particle\<close>

type_synonym rgb = "int \<times> int \<times> int"

record Particle =
  p_x :: real
  p_y :: real
  p_color :: rgb
  p_size :: real
  p_speed :: real
  p_angle :: real

text \<open>\<^verbatim>\<open>Particle.__init__\<close>: size, speed and angle are drawn in this order.\<close>

definition Particle_init :: "real \<Rightarrow> real \<Rightarrow> rgb \<Rightarrow> rng \<Rightarrow> Particle \<times> rng" where
  "Particle_init x y color g =
     (case random_randint 2 5 g of (sz, g1) \<Rightarrow>
      case random_uniform 1 3 g1 of (sp, g2) \<Rightarrow>
      case random_uniform 0 (2 * pi) g2 of (an, g3) \<Rightarrow>
        (\<lparr>p_x = x, p_y = y, p_color = color, p_size = of_int sz,
          p_speed = sp, p_angle = an\<rparr>, g3))"

text \<open>\<^verbatim>\<open>Particle.update\<close>: the updated particle and the returned flag.\<close>

definition Particle_update :: "Particle \<Rightarrow> Particle \<times> bool" where
  "Particle_update p =
     (let p1 = p\<lparr>p_x := p_x p + cos (p_angle p) * p_speed p\<rparr>;
          p2 = p1\<lparr>p_y := p_y p1 + sin (p_angle p1) * p_speed p1\<rparr>;
          p3 = p2\<lparr>p_size := p_size p2 - 1 / 10\<rparr>
      in (p3, p_size p3 \<le> 0))"



text \<open>The owners' list comprehension \<^verbatim>\<open>[p for p in ps if not p.update()]\<close>.\<close>

definition update_particles :: "Particle list \<Rightarrow> Particle list" where
  "update_particles ps = map fst (filter (\<lambda>r. \<not> snd r) (map Particle_update ps))"

section \<open>Configuration\<close>

text \<open>
  \<^verbatim>\<open>load_config\<close> opens \<^verbatim>\<open>config.json\<close> and parses it. The environment is given by
  the outcome of \<^verbatim>\<open>open\<close> (an exception, or the text of the file) and by the outcome of
  \<^verbatim>\<open>json.load\<close> on a text (an exception, or the dictionary). The \<^verbatim>\<open>except\<close> clause
  names \<^verbatim>\<open>FileNotFoundError\<close> alone, so every other exception leaves the function. The
  second component is what was written to the logger.
\<close>

datatype cfg_value = IntV int | ListV "string list"

type_synonym config = "string \<rightharpoonup> cfg_value"

datatype log_level = ERROR | WARNING | INFO

definition load_config ::
  "(py_error + string) \<Rightarrow> (string \<Rightarrow> py_error + config)
     \<Rightarrow> (py_error + config) \<times> (log_level \<times> string) list" where
  "load_config opened json_load =
     (case (case opened of Inl e \<Rightarrow> Inl e | Inr f \<Rightarrow> json_load f) of
        Inr d \<Rightarrow> (Inr d, [])
      | Inl e \<Rightarrow>
          if e = FileNotFoundError
          then (Inr Map.empty, [(ERROR, ''Config file not found. Using default settings.'')])
          else (Inl e, []))"

text \<open>\<^verbatim>\<open>CONFIG.get(key, default)\<close>.\<close>

definition CONFIG_get :: "config \<Rightarrow> string \<Rightarrow> cfg_value \<Rightarrow> cfg_value" where
  "CONFIG_get cfg k d = (case cfg k of None \<Rightarrow> d | Some v \<Rightarrow> v)"

text \<open>
  The module constants. The game code below takes them as a parameter, with the types
  the code uses them at; \<open>module_constants\<close> is \<open>None\<close> for a dictionary that holds a
  value of another type under one of the keys.
\<close>

record constants =
  WIDTH :: int
  HEIGHT :: int
  FPS :: int
  PADDLE_WIDTH :: int
  PADDLE_HEIGHT :: int
  BALL_SIZE :: int
  AI_SPEED :: int
  ELEMENTS :: "string list"

definition module_constants :: "config \<Rightarrow> constants option" where
  "module_constants cfg =
     (case (CONFIG_get cfg ''WIDTH'' (IntV 800), CONFIG_get cfg ''HEIGHT'' (IntV 600),
            CONFIG_get cfg ''FPS'' (IntV 60), CONFIG_get cfg ''PADDLE_WIDTH'' (IntV 15),
            CONFIG_get cfg ''PADDLE_HEIGHT'' (IntV 90), CONFIG_get cfg ''BALL_SIZE'' (IntV 15),
            CONFIG_get cfg ''AI_SPEED'' (IntV 7),
            CONFIG_get cfg ''ELEMENTS''
              (ListV [''Fire'', ''Water'', ''Earth'', ''Air'', ''Void'', ''Time''])) of
        (IntV w, IntV h, IntV f, IntV pw, IntV ph, IntV bs, IntV ai, ListV es) \<Rightarrow>
          Some \<lparr>WIDTH = w, HEIGHT = h, FPS = f, PADDLE_WIDTH = pw, PADDLE_HEIGHT = ph,
                BALL_SIZE = bs, AI_SPEED = ai, ELEMENTS = es\<rparr>
      | _ \<Rightarrow> None)"

text \<open>The constants of a run without a settings file.\<close>

definition default_constants :: constants where
  "default_constants =
     \<lparr>WIDTH = 800, HEIGHT = 600, FPS = 60, PADDLE_WIDTH = 15, PADDLE_HEIGHT = 90,
      BALL_SIZE = 15, AI_SPEED = 7,
      ELEMENTS = [''Fire'', ''Water'', ''Earth'', ''Air'', ''Void'', ''Time'']\<rparr>"

section \<open>Colours\<close>

record Color =
  c_r :: int
  c_g :: int
  c_b :: int

definition Color_random :: "rng \<Rightarrow> Color \<times> rng" where
  "Color_random g =
     (case random_randint 100 255 g of (r, g1) \<Rightarrow>
      case random_randint 100 255 g1 of (gr, g2) \<Rightarrow>
      case random_randint 100 255 g2 of (b, g3) \<Rightarrow>
        (\<lparr>c_r = r, c_g = gr, c_b = b\<rparr>, g3))"

definition to_tuple :: "Color \<Rightarrow> rgb" where
  "to_tuple c = (c_r c, c_g c, c_b c)"

subsection \<open>The colorsys module\<close>



subsection \<open>DynamicColorManager\<close>

record DynamicColorManager =
  shift :: real
  colors :: "string \<rightharpoonup> Color"

fun init_colors :: "string list \<Rightarrow> (string \<rightharpoonup> Color) \<Rightarrow> rng \<Rightarrow> (string \<rightharpoonup> Color) \<times> rng" where
  "init_colors [] m g = (m, g)"
| "init_colors (e # es) m g =
     (case Color_random g of (c, g') \<Rightarrow> init_colors es (m(e \<mapsto> c)) g')"

definition DynamicColorManager_init :: "constants \<Rightarrow> rng \<Rightarrow> DynamicColorManager \<times> rng" where
  "DynamicColorManager_init c g =
     (case init_colors (ELEMENTS c) Map.empty g of (m, g') \<Rightarrow> (\<lparr>shift = 0, colors = m\<rparr>, g'))"






definition DynamicColorManager_get :: "DynamicColorManager \<Rightarrow> string \<Rightarrow> py_error + rgb" where
  "DynamicColorManager_get m e =
     (case colors m e of None \<Rightarrow> Inl (KeyError e) | Some col \<Rightarrow> Inr (to_tuple col))"


section \<open>Rectangles\<close>

text \<open>
  \<^verbatim>\<open>pygame.Rect\<close>: integer position and size. The centre is computed with the width and
  height halved downwards, and assigning the centre moves the rectangle without resizing
  it. Assigning a float to a coordinate truncates it towards zero. Two rectangles
  collide when they overlap in both axes; a rectangle of width or height zero collides
  with nothing.
\<close>

record Rect =
  rect_x :: int
  rect_y :: int
  rect_w :: int
  rect_h :: int

definition rect_top :: "Rect \<Rightarrow> int" where "rect_top r = rect_y r"
definition rect_bottom :: "Rect \<Rightarrow> int" where "rect_bottom r = rect_y r + rect_h r"
definition rect_left :: "Rect \<Rightarrow> int" where "rect_left r = rect_x r"
definition rect_right :: "Rect \<Rightarrow> int" where "rect_right r = rect_x r + rect_w r"
definition rect_centerx :: "Rect \<Rightarrow> int" where "rect_centerx r = rect_x r + rect_w r div 2"
definition rect_centery :: "Rect \<Rightarrow> int" where "rect_centery r = rect_y r + rect_h r div 2"

definition rect_center :: "Rect \<Rightarrow> int \<times> int" where
  "rect_center r = (rect_centerx r, rect_centery r)"

definition set_center :: "int \<times> int \<Rightarrow> Rect \<Rightarrow> Rect" where
  "set_center xy r =
     r\<lparr>rect_x := fst xy - rect_w r div 2, rect_y := snd xy - rect_h r div 2\<rparr>"

definition colliderect :: "Rect \<Rightarrow> Rect \<Rightarrow> bool" where
  "colliderect a b =
     (if rect_w a = 0 \<or> rect_h a = 0 \<or> rect_w b = 0 \<or> rect_h b = 0 then False
      else min (rect_x a) (rect_x a + rect_w a) < max (rect_x b) (rect_x b + rect_w b)
         \<and> min (rect_y a) (rect_y a + rect_h a) < max (rect_y b) (rect_y b + rect_h b)
         \<and> max (rect_x a) (rect_x a + rect_w a) > min (rect_x b) (rect_x b + rect_w b)
         \<and> max (rect_y a) (rect_y a + rect_h a) > min (rect_y b) (rect_y b + rect_h b))"

section \<open>Ball\<close>

record Ball =
  ball_rect :: Rect
  ball_dx :: real
  ball_dy :: real
  ball_element :: string
  ball_dimension :: int
  ball_trail :: "(int \<times> int) list"
  ball_particles :: "Particle list"

text \<open>
  \<^verbatim>\<open>Ball.reset\<close>. The draws are, in order, the angle, the sign of \<open>dx\<close> and the
  element; \<^verbatim>\<open>random.choice\<close> raises on an empty catalogue.
\<close>

definition Ball_reset :: "constants \<Rightarrow> rng \<Rightarrow> Ball \<Rightarrow> py_error + (Ball \<times> rng)" where
  "Ball_reset c g b =
     (let b1 = b\<lparr>ball_rect := set_center (WIDTH c div 2, HEIGHT c div 2) (ball_rect b)\<rparr>;
          speed = 5
      in case random_uniform (- pi / 4) (pi / 4) g of (angle, g1) \<Rightarrow>
         case random_choice [- 1, 1 :: int] g1 of
           Inl e \<Rightarrow> Inl e
         | Inr (sg, g2) \<Rightarrow>
             let b2 = b1\<lparr>ball_dx := speed * cos angle * of_int sg\<rparr>;
                 b3 = b2\<lparr>ball_dy := speed * sin angle\<rparr>
             in case random_choice (ELEMENTS c) g2 of
                  Inl e \<Rightarrow> Inl e
                | Inr (el, g3) \<Rightarrow> Inr (b3\<lparr>ball_element := el, ball_dimension := 0\<rparr>, g3))"

text \<open>
  \<^verbatim>\<open>Ball.__init__\<close>: the rectangle, then \<^verbatim>\<open>reset\<close>, which gives every other attribute
  its first value, then the empty trail and particle list.
\<close>

definition Ball_init :: "constants \<Rightarrow> rng \<Rightarrow> py_error + (Ball \<times> rng)" where
  "Ball_init c g =
     (case Ball_reset c g
             \<lparr>ball_rect = \<lparr>rect_x = WIDTH c div 2 - BALL_SIZE c div 2,
                            rect_y = HEIGHT c div 2 - BALL_SIZE c div 2,
                            rect_w = BALL_SIZE c, rect_h = BALL_SIZE c\<rparr>,
              ball_dx = 0, ball_dy = 0, ball_element = [], ball_dimension = 0,
              ball_trail = [], ball_particles = []\<rparr> of
        Inl e \<Rightarrow> Inl e
      | Inr (b, g') \<Rightarrow> Inr (b\<lparr>ball_trail := [], ball_particles := []\<rparr>, g'))"

text \<open>The two lines of \<^verbatim>\<open>Ball.update\<close> that move the rectangle.\<close>

definition Ball_move :: "real \<Rightarrow> Ball \<Rightarrow> Ball" where
  "Ball_move time_factor b =
     (let r = ball_rect b;
          r1 = r\<lparr>rect_x := py_int (of_int (rect_x r) + ball_dx b * time_factor)\<rparr>;
          r2 = r1\<lparr>rect_y := py_int (of_int (rect_y r1) + ball_dy b * time_factor)\<rparr>
      in b\<lparr>ball_rect := r2\<rparr>)"

text \<open>The three lines that record the centre: insert at the front, drop the last.\<close>

definition Ball_record_trail :: "Ball \<Rightarrow> Ball" where
  "Ball_record_trail b =
     (let t = rect_center (ball_rect b) # ball_trail b
      in b\<lparr>ball_trail := (if length t > 20 then butlast t else t)\<rparr>)"

definition Ball_update ::
  "DynamicColorManager \<Rightarrow> real \<Rightarrow> rng \<Rightarrow> Ball \<Rightarrow> py_error + (Ball \<times> rng)" where
  "Ball_update cm time_factor g b =
     (let b1 = Ball_record_trail (Ball_move time_factor b)
      in case random_random g of (u, g1) \<Rightarrow>
         if u < 2 / 10 then
           (case DynamicColorManager_get cm (ball_element b1) of
              Inl e \<Rightarrow> Inl e
            | Inr col \<Rightarrow>
                (case Particle_init (of_int (rect_centerx (ball_rect b1)))
                        (of_int (rect_centery (ball_rect b1))) col g1 of
                   (p, g2) \<Rightarrow>
                     Inr (b1\<lparr>ball_particles := update_particles (ball_particles b1 @ [p])\<rparr>, g2)))
         else Inr (b1\<lparr>ball_particles := update_particles (ball_particles b1)\<rparr>, g1))"

section \<open>Paddle\<close>

record Paddle =
  pad_rect :: Rect
  pad_element :: string
  is_ai :: bool
  charge :: real
  max_charge :: real
  combo_meter :: int
  combo_multiplier :: real
  pad_particles :: "Particle list"

definition Paddle_init :: "constants \<Rightarrow> int \<Rightarrow> int \<Rightarrow> bool \<Rightarrow> rng \<Rightarrow> py_error + (Paddle \<times> rng)" where
  "Paddle_init c x y ai g =
     (case random_choice (ELEMENTS c) g of
        Inl e \<Rightarrow> Inl e
      | Inr (el, g') \<Rightarrow>
          Inr (\<lparr>pad_rect = \<lparr>rect_x = x, rect_y = y, rect_w = PADDLE_WIDTH c,
                             rect_h = PADDLE_HEIGHT c\<rparr>,
                pad_element = el, is_ai = ai, charge = 0, max_charge = 100,
                combo_meter = 0, combo_multiplier = 1, pad_particles = []\<rparr>, g'))"

text \<open>The state of the three keys that \<^verbatim>\<open>pygame.key.get_pressed()\<close> reports.\<close>

record keys =
  K_w :: bool
  K_s :: bool
  K_LSHIFT :: bool

definition move_y :: "int \<Rightarrow> Paddle \<Rightarrow> Paddle" where
  "move_y d p = p\<lparr>pad_rect := (pad_rect p)\<lparr>rect_y := rect_y (pad_rect p) + d\<rparr>\<rparr>"

definition Paddle_ai_move :: "constants \<Rightarrow> Ball \<Rightarrow> Paddle \<Rightarrow> Paddle" where
  "Paddle_ai_move c ball p =
     (if rect_centery (pad_rect p) < rect_centery (ball_rect ball)
         \<and> rect_bottom (pad_rect p) < HEIGHT c
      then move_y (AI_SPEED c) p
      else if rect_centery (pad_rect p) > rect_centery (ball_rect ball)
         \<and> rect_top (pad_rect p) > 0
      then move_y (- AI_SPEED c) p
      else p)"

text \<open>The branch of \<^verbatim>\<open>Paddle.update\<close> for the player.\<close>

definition Paddle_player_move :: "constants \<Rightarrow> keys \<Rightarrow> Paddle \<Rightarrow> Paddle" where
  "Paddle_player_move c ks p =
     (let p1 = (if K_w ks \<and> rect_top (pad_rect p) > 0 then move_y (- 5) p else p);
          p2 = (if K_s ks \<and> rect_bottom (pad_rect p1) < HEIGHT c then move_y 5 p1 else p1)
      in if K_LSHIFT ks then p2\<lparr>charge := min (charge p2 + 1) (max_charge p2)\<rparr>
         else p2\<lparr>charge := max (charge p2 - 1 / 2) 0\<rparr>)"

text \<open>
  \<^verbatim>\<open>_update_particles\<close>. \<^verbatim>\<open>random.randint\<close> raises on an empty range, that is for a
  paddle of negative height.
\<close>

definition Paddle_update_particles ::
  "DynamicColorManager \<Rightarrow> rng \<Rightarrow> Paddle \<Rightarrow> py_error + (Paddle \<times> rng)" where
  "Paddle_update_particles cm g p =
     (let p1 = p\<lparr>pad_particles := update_particles (pad_particles p)\<rparr>
      in case random_random g of (u, g1) \<Rightarrow>
         if u < 2 / 10 then
           if rect_bottom (pad_rect p1) < rect_top (pad_rect p1) then Inl ValueError
           else
             (case random_randint (rect_top (pad_rect p1)) (rect_bottom (pad_rect p1)) g1 of
                (y, g2) \<Rightarrow>
                  (case DynamicColorManager_get cm (pad_element p1) of
                     Inl e \<Rightarrow> Inl e
                   | Inr col \<Rightarrow>
                       (case Particle_init (of_int (rect_centerx (pad_rect p1))) (of_int y) col g2 of
                          (q, g3) \<Rightarrow> Inr (p1\<lparr>pad_particles := pad_particles p1 @ [q]\<rparr>, g3))))
         else Inr (p1, g1))"

definition Paddle_update ::
  "constants \<Rightarrow> DynamicColorManager \<Rightarrow> keys \<Rightarrow> Ball \<Rightarrow> rng \<Rightarrow> Paddle \<Rightarrow> py_error + (Paddle \<times> rng)" where
  "Paddle_update c cm ks ball g p =
     Paddle_update_particles cm g
       (if \<not> is_ai p then Paddle_player_move c ks p else Paddle_ai_move c ball p)"

section \<open>Game\<close>

text \<open>
  The fields of \<^verbatim>\<open>Game\<close> that the collision pass and the scoring pass read or write.
  The power-ups, the rifts and the visual effects are not touched by either pass.
\<close>

record Game =
  player_paddle :: Paddle
  ai_paddle :: Paddle
  ball :: Ball
  score :: "int list"
  time_factor :: real
  particles :: "Particle list"

definition Game_init :: "constants \<Rightarrow> rng \<Rightarrow> py_error + (Game \<times> rng)" where
  "Game_init c g =
     (case Paddle_init c 50 (HEIGHT c div 2 - PADDLE_HEIGHT c div 2) False g of
        Inl e \<Rightarrow> Inl e
      | Inr (pp, g1) \<Rightarrow>
     (case Paddle_init c (WIDTH c - 50 - PADDLE_WIDTH c)
             (HEIGHT c div 2 - PADDLE_HEIGHT c div 2) True g1 of
        Inl e \<Rightarrow> Inl e
      | Inr (ap, g2) \<Rightarrow>
     (case Ball_init c g2 of
        Inl e \<Rightarrow> Inl e
      | Inr (b, g3) \<Rightarrow>
          Inr (\<lparr>player_paddle = pp, ai_paddle = ap, ball = b, score = [0, 0],
                time_factor = 1, particles = []\<rparr>, g3))))"

text \<open>
  \<^verbatim>\<open>_create_collision_particles\<close>: the loop appends \<open>num\<close> particles at the centre of
  the ball, each with its own draws.
\<close>

fun spawn :: "nat \<Rightarrow> real \<Rightarrow> real \<Rightarrow> rgb \<Rightarrow> rng \<Rightarrow> Particle list \<Rightarrow> Particle list \<times> rng" where
  "spawn 0 x y col g ps = (ps, g)"
| "spawn (Suc n) x y col g ps =
     (case Particle_init x y col g of (p, g') \<Rightarrow> spawn n x y col g' (ps @ [p]))"

definition Game_create_collision_particles ::
  "DynamicColorManager \<Rightarrow> nat \<Rightarrow> rgb option \<Rightarrow> rng \<Rightarrow> Game \<Rightarrow> py_error + (Game \<times> rng)" where
  "Game_create_collision_particles cm num color g gm =
     (case (case color of
              Some col \<Rightarrow> Inr col
            | None \<Rightarrow> DynamicColorManager_get cm (ball_element (ball gm))) of
        Inl e \<Rightarrow> Inl e
      | Inr col \<Rightarrow>
          (case spawn num (of_int (rect_centerx (ball_rect (ball gm))))
                  (of_int (rect_centery (ball_rect (ball gm)))) col g (particles gm) of
             (ps, g') \<Rightarrow> Inr (gm\<lparr>particles := ps\<rparr>, g')))"

datatype side = Player | AI

definition get_paddle :: "side \<Rightarrow> Game \<Rightarrow> Paddle" where
  "get_paddle sd gm = (case sd of Player \<Rightarrow> player_paddle gm | AI \<Rightarrow> ai_paddle gm)"

definition set_paddle :: "side \<Rightarrow> Paddle \<Rightarrow> Game \<Rightarrow> Game" where
  "set_paddle sd p gm =
     (case sd of Player \<Rightarrow> gm\<lparr>player_paddle := p\<rparr> | AI \<Rightarrow> gm\<lparr>ai_paddle := p\<rparr>)"

text \<open>The body of the loop over the two paddles in \<^verbatim>\<open>_handle_collisions\<close>.\<close>

definition collide_paddle ::
  "DynamicColorManager \<Rightarrow> side \<Rightarrow> rng \<Rightarrow> Game \<Rightarrow> py_error + (Game \<times> rng)" where
  "collide_paddle cm sd g gm =
     (if colliderect (ball_rect (ball gm)) (pad_rect (get_paddle sd gm)) then
        let gm1 = gm\<lparr>ball := (ball gm)\<lparr>ball_dx := ball_dx (ball gm) * (- 11 / 10)\<rparr>\<rparr>;
            p = get_paddle sd gm1;
            p1 = p\<lparr>combo_meter := combo_meter p + 1\<rparr>;
            p2 = p1\<lparr>combo_multiplier := 1 + of_int (combo_meter p1 div 3) * (2 / 10)\<rparr>
        in Game_create_collision_particles cm 20 None g (set_paddle sd p2 gm1)
      else Inr (gm, g))"

text \<open>The first statement of \<^verbatim>\<open>_handle_collisions\<close>: the top and bottom walls.\<close>

definition bounce_walls :: "constants \<Rightarrow> Game \<Rightarrow> Game" where
  "bounce_walls c gm =
     (if rect_top (ball_rect (ball gm)) \<le> 0 \<or> rect_bottom (ball_rect (ball gm)) \<ge> HEIGHT c
      then gm\<lparr>ball := (ball gm)\<lparr>ball_dy := ball_dy (ball gm) * (- 1)\<rparr>\<rparr>
      else gm)"

definition Game_handle_collisions ::
  "constants \<Rightarrow> DynamicColorManager \<Rightarrow> rng \<Rightarrow> Game \<Rightarrow> py_error + (Game \<times> rng)" where
  "Game_handle_collisions c cm g gm =
     (case collide_paddle cm Player g (bounce_walls c gm) of
        Inl e \<Rightarrow> Inl e
      | Inr (gm1, g1) \<Rightarrow> collide_paddle cm AI g1 gm1)"

text \<open>\<^verbatim>\<open>self.score[i] += 1\<close>.\<close>

definition incr_score :: "nat \<Rightarrow> int list \<Rightarrow> py_error + int list" where
  "incr_score i xs = (if i < length xs then Inr (xs[i := xs ! i + 1]) else Inl IndexError)"

definition Game_update_game_state ::
  "constants \<Rightarrow> rng \<Rightarrow> Game \<Rightarrow> py_error + (Game \<times> rng)" where
  "Game_update_game_state c g gm =
     (if rect_left (ball_rect (ball gm)) \<le> 0 \<or> rect_right (ball_rect (ball gm)) \<ge> WIDTH c then
        (case incr_score (if rect_left (ball_rect (ball gm)) \<le> 0 then 1 else 0) (score gm) of
           Inl e \<Rightarrow> Inl e
         | Inr sc \<Rightarrow>
             (case Ball_reset c g (ball gm) of
                Inl e \<Rightarrow> Inl e
              | Inr (b, g') \<Rightarrow>
                  Inr (gm\<lparr>score := sc, ball := b,
                          player_paddle := (player_paddle gm)\<lparr>combo_meter := 0\<rparr>,
                          ai_paddle := (ai_paddle gm)\<lparr>combo_meter := 0\<rparr>\<rparr>, g')))
      else Inr (gm, g))"

text \<open>
  The part of one frame of \<^verbatim>\<open>Game.update\<close> from the ball's update to the collision
  pass.
\<close>

definition ball_frame ::
  "constants \<Rightarrow> DynamicColorManager \<Rightarrow> rng \<Rightarrow> Game \<Rightarrow> py_error + (Game \<times> rng)" where
  "ball_frame c cm g gm =
     (case Ball_update cm (time_factor gm) g (ball gm) of
        Inl e \<Rightarrow> Inl e
      | Inr (b, g1) \<Rightarrow> Game_handle_collisions c cm g1 (gm\<lparr>ball := b\<rparr>))"

section \<open>Runs of the ball\<close>

text \<open>
  Everything the program does to the ball after its construction: \<^verbatim>\<open>Ball.update\<close>
  (once per frame), \<^verbatim>\<open>Ball.reset\<close> (scoring pass), and the assignments to
  \<^verbatim>\<open>dx\<close>, \<^verbatim>\<open>dy\<close> (collision pass) and \<^verbatim>\<open>dimension\<close> (rift pass). A run
  carries, beside the ball and the generator, the list of the centres that the updates
  recorded, the latest first.
\<close>

datatype ball_event =
    Ev_update DynamicColorManager real
  | Ev_reset
  | Ev_set_dx real
  | Ev_set_dy real
  | Ev_set_dimension int

fun ball_run ::
  "constants \<Rightarrow> ball_event list \<Rightarrow> Ball \<times> rng \<times> (int \<times> int) list
     \<Rightarrow> py_error + (Ball \<times> rng \<times> (int \<times> int) list)" where
  "ball_run c [] st = Inr st"
| "ball_run c (Ev_update cm tf # evs) (b, g, hist) =
     (case Ball_update cm tf g b of
        Inl e \<Rightarrow> Inl e
      | Inr (b', g') \<Rightarrow> ball_run c evs (b', g', rect_center (ball_rect b') # hist))"
| "ball_run c (Ev_reset # evs) (b, g, hist) =
     (case Ball_reset c g b of
        Inl e \<Rightarrow> Inl e
      | Inr (b', g') \<Rightarrow> ball_run c evs (b', g', hist))"
| "ball_run c (Ev_set_dx v # evs) (b, g, hist) = ball_run c evs (b\<lparr>ball_dx := v\<rparr>, g, hist)"
| "ball_run c (Ev_set_dy v # evs) (b, g, hist) = ball_run c evs (b\<lparr>ball_dy := v\<rparr>, g, hist)"
| "ball_run c (Ev_set_dimension d # evs) (b, g, hist) =
     ball_run c evs (b\<lparr>ball_dimension := d\<rparr>, g, hist)"

section \<open>Observing the colour manager\<close>

text \<open>
  Stored channels are non-negative; a manager is valid for a catalogue when it stores
  such a colour for every element of it. \<open>color_after n sh col\<close> follows one stored
  colour through \<open>n\<close> calls of \<^verbatim>\<open>update\<close> that start with the accumulator at
  \<open>sh\<close>: call \<open>k\<close> applies the loop body with the accumulator \<open>sh + k / 100\<close>.
  \<open>hue_after\<close> is the hue of an element's stored colour after \<open>n\<close> calls.
\<close>

definition valid_color :: "Color \<Rightarrow> bool" where
  "valid_color col \<longleftrightarrow> 0 \<le> c_r col \<and> 0 \<le> c_g col \<and> 0 \<le> c_b col"

definition valid_manager :: "constants \<Rightarrow> DynamicColorManager \<Rightarrow> bool" where
  "valid_manager c m \<longleftrightarrow>
     list_all (\<lambda>e. case colors m e of None \<Rightarrow> False | Some col \<Rightarrow> valid_color col) (ELEMENTS c)"




section \<open>Example states\<close>

text \<open>
  A generator whose every draw is \<open>1/2\<close>: no particle is spawned, the reset angle is
  \<open>0\<close>, the sign is \<open>1\<close> and the element is the fourth of the catalogue.
\<close>

definition rng_half :: rng where
  "rng_half = (\<lambda>_. 1 / 2)"

definition red_manager :: DynamicColorManager where
  "red_manager = \<lparr>shift = 0, colors = (\<lambda>_. Some \<lparr>c_r = 255, c_g = 100, c_b = 100\<rparr>)\<rparr>"

definition example_paddle :: "int \<Rightarrow> int \<Rightarrow> bool \<Rightarrow> int \<Rightarrow> real \<Rightarrow> Paddle" where
  "example_paddle x y ai m mult =
     \<lparr>pad_rect = \<lparr>rect_x = x, rect_y = y, rect_w = 15, rect_h = 90\<rparr>,
      pad_element = ''Fire'', is_ai = ai, charge = 0, max_charge = 100,
      combo_meter = m, combo_multiplier = mult, pad_particles = []\<rparr>"

definition example_ball :: "int \<Rightarrow> int \<Rightarrow> real \<Rightarrow> real \<Rightarrow> Ball" where
  "example_ball x y dx dy =
     \<lparr>ball_rect = \<lparr>rect_x = x, rect_y = y, rect_w = 15, rect_h = 15\<rparr>,
      ball_dx = dx, ball_dy = dy, ball_element = ''Water'', ball_dimension = 0,
      ball_trail = [(x + 12, y + 7), (x + 17, y + 7)], ball_particles = []\<rparr>"

text \<open>The ball that \<^verbatim>\<open>Ball.__init__\<close> builds with the default constants and these draws.\<close>

definition start_ball :: Ball where
  "start_ball =
     \<lparr>ball_rect = \<lparr>rect_x = 393, rect_y = 293, rect_w = 15, rect_h = 15\<rparr>,
      ball_dx = 5, ball_dy = 0, ball_element = ''Air'', ball_dimension = 0,
      ball_trail = [], ball_particles = []\<rparr>"

text \<open>
  The ball has left the screen on the left after three hits by the player and one by
  the opponent; the score is 2 to 1.
\<close>

definition left_exit_game :: Game where
  "left_exit_game =
     \<lparr>player_paddle = example_paddle 50 255 False 3 (6 / 5),
      ai_paddle = example_paddle 735 255 True 1 1,
      ball = example_ball (- 3) 100 (- 5) 0,
      score = [2, 1], time_factor = 1, particles = []\<rparr>"

text \<open>
  The ball overlaps the player's paddle, whose combo meter is 2; and a game whose ball is
  in mid-field at height \<open>y\<close> with vertical velocity \<open>dy\<close>.
\<close>

definition hit_game :: Game where
  "hit_game =
     \<lparr>player_paddle = example_paddle 50 255 False 2 1,
      ai_paddle = example_paddle 735 255 True 0 1,
      ball = example_ball 60 290 (- 5) 2,
      score = [0, 0], time_factor = 1, particles = []\<rparr>"

definition wall_game :: "int \<Rightarrow> real \<Rightarrow> Game" where
  "wall_game y dy =
     \<lparr>player_paddle = example_paddle 50 255 False 0 1,
      ai_paddle = example_paddle 735 255 True 0 1,
      ball = example_ball 400 y 4 dy,
      score = [0, 0], time_factor = 1, particles = []\<rparr>"

text \<open>A ball at the top wall, as the opponent's paddle sees it.\<close>

definition top_ball :: Ball where
  "top_ball = example_ball 400 0 4 (- 3)"



definition empty_json :: "string \<Rightarrow> py_error + config" where
  "empty_json txt = Inr Map.empty"

definition bad_json :: "string \<Rightarrow> py_error + config" where
  "bad_json txt = Inl JSONDecodeError"

section \<open>Rectangles and reset\<close>

lemma rect_center_set_center: "rect_center (set_center xy r) = xy"
  by (simp add: rect_center_def set_center_def rect_centerx_def rect_centery_def)

lemma set_center_size:
  "rect_w (set_center xy r) = rect_w r" "rect_h (set_center xy r) = rect_h r"
  by (simp_all add: set_center_def)

lemma Ball_reset_Inr:
  assumes "ELEMENTS c \<noteq> []"
  shows "\<exists>dx dy el g'. Ball_reset c g b =
           Inr (b\<lparr>ball_rect := set_center (WIDTH c div 2, HEIGHT c div 2) (ball_rect b),
                  ball_dx := dx, ball_dy := dy, ball_element := el, ball_dimension := 0\<rparr>, g')"
  using assms
  apply (simp add: Ball_reset_def random_choice_def random_uniform_def random_random_def Let_def)
  apply (intro exI)
  apply (rule refl)
  done

lemma Ball_reset_trail:
  assumes "Ball_reset c g b = Inr (b', g')"
  shows "ball_trail b' = ball_trail b \<and> ball_particles b' = ball_particles b"
  using assms
  by (auto simp add: Ball_reset_def random_choice_def random_uniform_def random_random_def Let_def
      split: if_splits)

lemma Ball_reset_center:
  assumes "Ball_reset c g b = Inr (b', g')"
  shows "rect_center (ball_rect b') = (WIDTH c div 2, HEIGHT c div 2)"
  using assms
  by (auto simp add: Ball_reset_def random_choice_def random_uniform_def random_random_def Let_def
      rect_center_set_center split: if_splits)

lemma rng_half_next: "random_random rng_half = (1 / 2, rng_half)"
  by (simp add: random_random_def rng_half_def)

lemmas example_defs =
  left_exit_game_def example_ball_def example_paddle_def default_constants_def

lemmas eval_defs =
  Ball_init_def Ball_reset_def Ball_update_def Ball_move_def Ball_record_trail_def
  random_choice_def random_uniform_def random_randint_def rng_half_next
  set_center_def rect_center_def rect_centerx_def rect_centery_def rect_left_def
  rect_right_def rect_top_def rect_bottom_def py_int_def Let_def

text \<open>
  C10. \<^verbatim>\<open>Ball.reset\<close> returns the ball with a new rectangle of the same size, centred
  on the screen, new \<open>dx\<close>, \<open>dy\<close> and element, and dimension 0; every other field is
  the old one. When a point is scored, the trail and the particle list of the ball after
  the scoring pass are those before it.
\<close>

theorem reset_frame:
  assumes "ELEMENTS c \<noteq> []"
    and "length (score gm) = 2"
    and "rect_left (ball_rect (ball gm)) \<le> 0 \<or> rect_right (ball_rect (ball gm)) \<ge> WIDTH c"
  shows "(\<exists>r dx dy el g'.
            Ball_reset c g b =
              Inr (b\<lparr>ball_rect := r, ball_dx := dx, ball_dy := dy, ball_element := el,
                     ball_dimension := 0\<rparr>, g')
            \<and> rect_w r = rect_w (ball_rect b) \<and> rect_h r = rect_h (ball_rect b)
            \<and> rect_center r = (WIDTH c div 2, HEIGHT c div 2))
       \<and> (\<exists>gm' g'.
            Game_update_game_state c g gm = Inr (gm', g')
            \<and> ball_trail (ball gm') = ball_trail (ball gm)
            \<and> ball_particles (ball gm') = ball_particles (ball gm))"
proof
  from Ball_reset_Inr [OF assms(1), of g b] obtain dx dy el g' where
    "Ball_reset c g b =
       Inr (b\<lparr>ball_rect := set_center (WIDTH c div 2, HEIGHT c div 2) (ball_rect b),
              ball_dx := dx, ball_dy := dy, ball_element := el, ball_dimension := 0\<rparr>, g')"
    by blast
  then show "\<exists>r dx dy el g'.
            Ball_reset c g b =
              Inr (b\<lparr>ball_rect := r, ball_dx := dx, ball_dy := dy, ball_element := el,
                     ball_dimension := 0\<rparr>, g')
            \<and> rect_w r = rect_w (ball_rect b) \<and> rect_h r = rect_h (ball_rect b)
            \<and> rect_center r = (WIDTH c div 2, HEIGHT c div 2)"
    using rect_center_set_center set_center_size by blast
next
  from Ball_reset_Inr [OF assms(1), of g "ball gm"] obtain b' g' where
    r: "Ball_reset c g (ball gm) = Inr (b', g')" by blast
  from Ball_reset_trail [OF r] r assms(2,3)
  show "\<exists>gm' g'.
            Game_update_game_state c g gm = Inr (gm', g')
            \<and> ball_trail (ball gm') = ball_trail (ball gm)
            \<and> ball_particles (ball gm') = ball_particles (ball gm)"
    by (simp add: Game_update_game_state_def incr_score_def)
qed

theorem reset_frame_witness:
  "ELEMENTS default_constants \<noteq> []
   \<and> length (score left_exit_game) = 2
   \<and> rect_left (ball_rect (ball left_exit_game)) \<le> 0
   \<and> (\<exists>gm' g'.
        Game_update_game_state default_constants rng_half left_exit_game = Inr (gm', g')
        \<and> ball_trail (ball gm') = [(9, 107), (14, 107)]
        \<and> rect_center (ball_rect (ball gm')) = (400, 300))"
proof -
  have h1: "ELEMENTS default_constants \<noteq> []" by (simp add: default_constants_def)
  have h2: "length (score left_exit_game) = 2" by (simp add: left_exit_game_def)
  have h3: "rect_left (ball_rect (ball left_exit_game)) \<le> 0"
    by (simp add: example_defs rect_left_def)
  from reset_frame [OF h1 h2 disjI1 [OF h3], of rng_half "ball left_exit_game"]
  obtain gm' g' where
    r: "Game_update_game_state default_constants rng_half left_exit_game = Inr (gm', g')"
    and t: "ball_trail (ball gm') = ball_trail (ball left_exit_game)"
    by blast
  from r have "rect_center (ball_rect (ball gm')) = (400, 300)"
    by (auto simp add: Game_update_game_state_def example_defs rect_left_def
        dest!: Ball_reset_center split: if_splits sum.splits)
  moreover from t have "ball_trail (ball gm') = [(9, 107), (14, 107)]"
    by (simp add: example_defs)
  ultimately show ?thesis using h1 h2 h3 r by blast
qed

section \<open>The trail\<close>

lemma Ball_move_trail: "ball_trail (Ball_move tf b) = ball_trail b"
  by (simp add: Ball_move_def Let_def)

lemma Ball_update_parts:
  assumes "Ball_update cm tf g b = Inr (b', g')"
  shows "ball_rect b' = ball_rect (Ball_move tf b)
       \<and> ball_trail b' = ball_trail (Ball_record_trail (Ball_move tf b))
       \<and> ball_dx b' = ball_dx b \<and> ball_dy b' = ball_dy b
       \<and> ball_element b' = ball_element b"
  using assms
  by (auto simp add: Ball_update_def Let_def Ball_record_trail_def Ball_move_def
      split: prod.splits if_splits sum.splits)

lemma butlast_take_Suc: "length xs = Suc n \<Longrightarrow> butlast xs = take n xs"
  by (simp add: butlast_conv_take)

lemma record_take:
  assumes "ball_trail b = take 20 hist"
  shows "ball_trail (Ball_record_trail b) = take 20 (rect_center (ball_rect b) # hist)"
proof (cases "length hist < 20")
  case True
  with assms show ?thesis by (simp add: Ball_record_trail_def Let_def)
next
  case False
  then have len: "length (rect_center (ball_rect b) # take 20 hist) = Suc 20" by simp
  have "butlast (rect_center (ball_rect b) # take 20 hist)
          = take 20 (rect_center (ball_rect b) # take 20 hist)"
    by (rule butlast_take_Suc [OF len])
  also have "\<dots> = take 20 (rect_center (ball_rect b) # hist)"
    by (simp add: take_Cons')
  finally show ?thesis using assms False by (simp add: Ball_record_trail_def Let_def)
qed

lemma ball_run_trail:
  assumes "ball_run c evs (b, g, hist) = Inr (b', g', hist')"
    and "ball_trail b = take 20 hist"
  shows "ball_trail b' = take 20 hist'"
  using assms
proof (induction evs arbitrary: b g hist)
  case Nil
  then show ?case by simp
next
  case (Cons ev evs)
  show ?case
  proof (cases ev)
    case (Ev_update cm tf)
    with Cons.prems(1) obtain b1 g1 where
      u: "Ball_update cm tf g b = Inr (b1, g1)"
      and r: "ball_run c evs (b1, g1, rect_center (ball_rect b1) # hist) = Inr (b', g', hist')"
      by (auto split: sum.splits)
    from Ball_update_parts [OF u] have
      "ball_trail b1 = ball_trail (Ball_record_trail (Ball_move tf b))"
      and rect: "ball_rect b1 = ball_rect (Ball_move tf b)" by simp_all
    moreover have "ball_trail (Ball_move tf b) = take 20 hist"
      using Cons.prems(2) by (simp add: Ball_move_trail)
    ultimately have "ball_trail b1 = take 20 (rect_center (ball_rect b1) # hist)"
      by (simp add: record_take)
    from Cons.IH [OF r this] show ?thesis .
  next
    case Ev_reset
    with Cons.prems(1) obtain b1 g1 where
      u: "Ball_reset c g b = Inr (b1, g1)"
      and r: "ball_run c evs (b1, g1, hist) = Inr (b', g', hist')"
      by (auto split: sum.splits)
    from Ball_reset_trail [OF u] Cons.prems(2) have "ball_trail b1 = take 20 hist" by simp
    from Cons.IH [OF r this] show ?thesis .
  next
    case (Ev_set_dx v)
    with Cons.prems have "ball_run c evs (b\<lparr>ball_dx := v\<rparr>, g, hist) = Inr (b', g', hist')"
      and "ball_trail (b\<lparr>ball_dx := v\<rparr>) = take 20 hist" by simp_all
    then show ?thesis by (rule Cons.IH)
  next
    case (Ev_set_dy v)
    with Cons.prems have "ball_run c evs (b\<lparr>ball_dy := v\<rparr>, g, hist) = Inr (b', g', hist')"
      and "ball_trail (b\<lparr>ball_dy := v\<rparr>) = take 20 hist" by simp_all
    then show ?thesis by (rule Cons.IH)
  next
    case (Ev_set_dimension d)
    with Cons.prems have
      "ball_run c evs (b\<lparr>ball_dimension := d\<rparr>, g, hist) = Inr (b', g', hist')"
      and "ball_trail (b\<lparr>ball_dimension := d\<rparr>) = take 20 hist" by simp_all
    then show ?thesis by (rule Cons.IH)
  qed
qed

lemma Ball_init_trail: "Ball_init c g = Inr (b, g') \<Longrightarrow> ball_trail b = []"
  by (auto simp add: Ball_init_def split: sum.splits)

text \<open>
  C7. In every run of a ball from its construction, the trail is the list of the centres
  recorded by the updates so far, the latest first, cut to its first 20 elements; so it
  has at most 20 elements, its head is the centre recorded last and each later element
  was recorded earlier.
\<close>

theorem trail_newest_first:
  assumes "Ball_init c g = Inr (b0, g0)"
    and "ball_run c evs (b0, g0, []) = Inr (b, g1, hist)"
  shows "length (ball_trail b) \<le> 20 \<and> ball_trail b = take 20 hist"
proof -
  from Ball_init_trail [OF assms(1)] have "ball_trail b0 = take 20 []" by simp
  from ball_run_trail [OF assms(2) this] show ?thesis by simp
qed

theorem trail_newest_first_witness:
  "\<exists>b hist.
     Ball_init default_constants rng_half = Inr (start_ball, rng_half)
     \<and> ball_run default_constants (replicate 21 (Ev_update red_manager 1) @ [Ev_reset])
           (start_ball, rng_half, []) = Inr (b, rng_half, hist)
     \<and> length hist = 21 \<and> hist ! 0 = (505, 300) \<and> hist ! 20 = (405, 300)
     \<and> length (ball_trail b) \<le> 20 \<and> ball_trail b = take 20 hist"
proof -
  have i: "Ball_init default_constants rng_half = Inr (start_ball, rng_half)"
    by (simp add: eval_defs default_constants_def start_ball_def)
  obtain b hist where
    r: "ball_run default_constants (replicate 21 (Ev_update red_manager 1) @ [Ev_reset])
           (start_ball, rng_half, []) = Inr (b, rng_half, hist)"
    and h: "length hist = 21 \<and> hist ! 0 = (505, 300) \<and> hist ! 20 = (405, 300)"
    by (simp add: eval_defs default_constants_def start_ball_def eval_nat_numeral
        update_particles_def)
  from trail_newest_first [OF i r] i r h show ?thesis by blast
qed

section \<open>The scoring pass\<close>



section \<open>The collision pass\<close>

lemma Particle_init_fields:
  "p_x (fst (Particle_init x y col g)) = x \<and> p_y (fst (Particle_init x y col g)) = y
   \<and> p_color (fst (Particle_init x y col g)) = col"
  by (simp add: Particle_init_def random_randint_def random_uniform_def random_random_def
      split: prod.splits)

lemma spawn_append:
  "\<exists>new g'. spawn n x y col g ps = (ps @ new, g') \<and> length new = n
     \<and> (\<forall>p\<in>set new. p_x p = x \<and> p_y p = y \<and> p_color p = col)"
proof (induction n arbitrary: g ps)
  case 0
  show ?case by simp
next
  case (Suc n)
  obtain p g1 where i: "Particle_init x y col g = (p, g1)" by (cases "Particle_init x y col g")
  with Particle_init_fields [of x y col g] have f: "p_x p = x \<and> p_y p = y \<and> p_color p = col"
    by simp
  from Suc.IH [of g1 "ps @ [p]"] obtain new g' where
    s: "spawn n x y col g1 (ps @ [p]) = ((ps @ [p]) @ new, g')" and l: "length new = n"
    and a: "\<forall>q\<in>set new. p_x q = x \<and> p_y q = y \<and> p_color q = col" by blast
  have "spawn (Suc n) x y col g ps = (ps @ (p # new), g')" using i s by simp
  moreover have "length (p # new) = Suc n" using l by simp
  moreover have "\<forall>q\<in>set (p # new). p_x q = x \<and> p_y q = y \<and> p_color q = col"
    using a f by simp
  ultimately show ?case by blast
qed

lemma collide_paddle_miss:
  assumes "\<not> colliderect (ball_rect (ball gm)) (pad_rect (get_paddle sd gm))"
  shows "collide_paddle cm sd g gm = Inr (gm, g)"
  using assms by (simp add: collide_paddle_def)

lemma get_set_paddle:
  "get_paddle sd (set_paddle sd p gm) = p"
  "ball (set_paddle sd p gm) = ball gm"
  "particles (set_paddle sd p gm) = particles gm"
  "sd' \<noteq> sd \<Longrightarrow> get_paddle sd' (set_paddle sd p gm) = get_paddle sd' gm"
  by (cases sd; cases sd'; simp add: get_paddle_def set_paddle_def)+

lemma collide_paddle_hit:
  assumes "colliderect (ball_rect (ball gm)) (pad_rect (get_paddle sd gm))"
    and "DynamicColorManager_get cm (ball_element (ball gm)) = Inr col"
  shows "\<exists>gm' g' new. collide_paddle cm sd g gm = Inr (gm', g')
     \<and> ball gm' = (ball gm)\<lparr>ball_dx := - 1.1 * ball_dx (ball gm)\<rparr>
     \<and> get_paddle sd gm' =
         (get_paddle sd gm)\<lparr>combo_meter := combo_meter (get_paddle sd gm) + 1,
            combo_multiplier := 1 + of_int ((combo_meter (get_paddle sd gm) + 1) div 3) * 0.2\<rparr>
     \<and> (\<forall>sd'. sd' \<noteq> sd \<longrightarrow> get_paddle sd' gm' = get_paddle sd' gm)
     \<and> particles gm' = particles gm @ new \<and> length new = 20
     \<and> (\<forall>p\<in>set new. p_x p = of_int (rect_centerx (ball_rect (ball gm)))
           \<and> p_y p = of_int (rect_centery (ball_rect (ball gm))) \<and> p_color p = col)"
proof -
  let ?x = "of_int (rect_centerx (ball_rect (ball gm))) :: real"
  let ?y = "of_int (rect_centery (ball_rect (ball gm))) :: real"
  from spawn_append [of 20 ?x ?y col g "particles gm"] obtain new g' where
    s: "spawn 20 ?x ?y col g (particles gm) = (particles gm @ new, g')"
    and l: "length new = 20"
    and a: "\<forall>p\<in>set new. p_x p = ?x \<and> p_y p = ?y \<and> p_color p = col" by blast
  show ?thesis
    using assms s l a
    by (cases sd)
      (auto simp add: collide_paddle_def Game_create_collision_particles_def Let_def
        get_paddle_def set_paddle_def split: side.splits)
qed

lemma bounce_walls_parts:
  "ball_rect (ball (bounce_walls c gm)) = ball_rect (ball gm)"
  "ball_dx (ball (bounce_walls c gm)) = ball_dx (ball gm)"
  "ball_element (ball (bounce_walls c gm)) = ball_element (ball gm)"
  "get_paddle sd (bounce_walls c gm) = get_paddle sd gm"
  "particles (bounce_walls c gm) = particles gm"
  by (simp_all add: bounce_walls_def get_paddle_def split: side.splits)

lemma default_layout_single_hit:
  assumes "rect_x (pad_rect (player_paddle gm)) = 50" "rect_w (pad_rect (player_paddle gm)) = 15"
    and "rect_x (pad_rect (ai_paddle gm)) = 735" "rect_w (pad_rect (ai_paddle gm)) = 15"
    and "rect_w (ball_rect (ball gm)) = 15"
  shows "\<not> (colliderect (ball_rect (ball gm)) (pad_rect (player_paddle gm))
          \<and> colliderect (ball_rect (ball gm)) (pad_rect (ai_paddle gm)))"
  using assms by (auto simp add: colliderect_def split: if_splits)

lemma red_get: "DynamicColorManager_get red_manager e = Inr (255, 100, 100)"
  by (simp add: DynamicColorManager_get_def red_manager_def to_tuple_def)

text \<open>
  C4. When the ball overlaps one of the paddles (and not the other), the collision pass
  returns, given that the colour manager knows the ball's element; after it \<open>dx\<close> is
  \<open>-1.1\<close> times the old \<open>dx\<close>, the meter of that paddle has grown by one, its
  multiplier is \<open>1 + (meter div 3) * 0.2\<close> for the new meter, and the game's particle
  list has grown by exactly 20 particles, all at the centre of the ball and in its colour.
\<close>

theorem collision_pass:
  assumes "colliderect (ball_rect (ball gm)) (pad_rect (get_paddle sd gm))"
    and "\<forall>sd'. sd' \<noteq> sd \<longrightarrow>
           \<not> colliderect (ball_rect (ball gm)) (pad_rect (get_paddle sd' gm))"
    and "DynamicColorManager_get cm (ball_element (ball gm)) = Inr col"
  shows "\<exists>gm' g' new. Game_handle_collisions c cm g gm = Inr (gm', g')
     \<and> ball_dx (ball gm') = - 1.1 * ball_dx (ball gm)
     \<and> combo_meter (get_paddle sd gm') = combo_meter (get_paddle sd gm) + 1
     \<and> combo_multiplier (get_paddle sd gm')
           = 1 + of_int (combo_meter (get_paddle sd gm') div 3) * 0.2
     \<and> particles gm' = particles gm @ new \<and> length new = 20
     \<and> (\<forall>p\<in>set new. p_x p = of_int (rect_centerx (ball_rect (ball gm)))
           \<and> p_y p = of_int (rect_centery (ball_rect (ball gm))) \<and> p_color p = col)"
proof -
  let ?gm = "bounce_walls c gm"
  have hit: "colliderect (ball_rect (ball ?gm)) (pad_rect (get_paddle sd ?gm))"
    using assms(1) by (simp add: bounce_walls_parts)
  have col: "DynamicColorManager_get cm (ball_element (ball ?gm)) = Inr col"
    using assms(3) by (simp add: bounce_walls_parts)
  show ?thesis
  proof (cases sd)
    case Player
    from collide_paddle_hit [OF hit col, of g] obtain gm1 g1 new where
      c1: "collide_paddle cm sd g ?gm = Inr (gm1, g1)"
      and b: "ball gm1 = (ball ?gm)\<lparr>ball_dx := - 1.1 * ball_dx (ball ?gm)\<rparr>"
      and p: "get_paddle sd gm1 =
         (get_paddle sd ?gm)\<lparr>combo_meter := combo_meter (get_paddle sd ?gm) + 1,
            combo_multiplier := 1 + of_int ((combo_meter (get_paddle sd ?gm) + 1) div 3) * 0.2\<rparr>"
      and o: "\<forall>sd'. sd' \<noteq> sd \<longrightarrow> get_paddle sd' gm1 = get_paddle sd' ?gm"
      and ps: "particles gm1 = particles ?gm @ new" and l: "length new = 20"
      and a: "\<forall>p\<in>set new. p_x p = of_int (rect_centerx (ball_rect (ball ?gm)))
           \<and> p_y p = of_int (rect_centery (ball_rect (ball ?gm))) \<and> p_color p = col"
      by blast
    have "\<not> colliderect (ball_rect (ball gm1)) (pad_rect (get_paddle AI gm1))"
      using assms(2) Player b o by (simp add: bounce_walls_parts)
    then have "collide_paddle cm AI g1 gm1 = Inr (gm1, g1)" by (rule collide_paddle_miss)
    with c1 Player have "Game_handle_collisions c cm g gm = Inr (gm1, g1)"
      by (simp add: Game_handle_collisions_def)
    with b p ps l a show ?thesis by (simp add: bounce_walls_parts)
  next
    case AI
    have "\<not> colliderect (ball_rect (ball ?gm)) (pad_rect (get_paddle Player ?gm))"
      using assms(2) AI by (simp add: bounce_walls_parts)
    then have c1: "collide_paddle cm Player g ?gm = Inr (?gm, g)" by (rule collide_paddle_miss)
    from collide_paddle_hit [OF hit col, of g] obtain gm1 g1 new where
      c2: "collide_paddle cm sd g ?gm = Inr (gm1, g1)"
      and b: "ball gm1 = (ball ?gm)\<lparr>ball_dx := - 1.1 * ball_dx (ball ?gm)\<rparr>"
      and p: "get_paddle sd gm1 =
         (get_paddle sd ?gm)\<lparr>combo_meter := combo_meter (get_paddle sd ?gm) + 1,
            combo_multiplier := 1 + of_int ((combo_meter (get_paddle sd ?gm) + 1) div 3) * 0.2\<rparr>"
      and ps: "particles gm1 = particles ?gm @ new" and l: "length new = 20"
      and a: "\<forall>p\<in>set new. p_x p = of_int (rect_centerx (ball_rect (ball ?gm)))
           \<and> p_y p = of_int (rect_centery (ball_rect (ball ?gm))) \<and> p_color p = col"
      by blast
    from c1 c2 AI have "Game_handle_collisions c cm g gm = Inr (gm1, g1)"
      by (simp add: Game_handle_collisions_def)
    with b p ps l a show ?thesis by (simp add: bounce_walls_parts)
  qed
qed


theorem collision_pass_witness:
  "colliderect (ball_rect (ball hit_game)) (pad_rect (get_paddle Player hit_game))
   \<and> \<not> colliderect (ball_rect (ball hit_game)) (pad_rect (get_paddle AI hit_game))
   \<and> DynamicColorManager_get red_manager (ball_element (ball hit_game)) = Inr (255, 100, 100)
   \<and> combo_meter (player_paddle hit_game) = 2
   \<and> ball_dx (ball hit_game) = - 5
   \<and> (\<exists>gm' g' new.
        Game_handle_collisions default_constants red_manager rng_half hit_game = Inr (gm', g')
        \<and> ball_dx (ball gm') = 5.5
        \<and> combo_meter (player_paddle gm') = 3
        \<and> combo_multiplier (player_paddle gm') = 1.2
        \<and> particles gm' = new \<and> length new = 20
        \<and> (\<forall>p\<in>set new. p_x p = 67 \<and> p_y p = 297 \<and> p_color p = (255, 100, 100)))"
proof -
  have h1: "colliderect (ball_rect (ball hit_game)) (pad_rect (get_paddle Player hit_game))"
    by (simp add: hit_game_def example_ball_def example_paddle_def get_paddle_def colliderect_def)
  have n: "\<not> colliderect (ball_rect (ball hit_game)) (pad_rect (get_paddle AI hit_game))"
    by (simp add: hit_game_def example_ball_def example_paddle_def get_paddle_def colliderect_def)
  have h2: "\<forall>sd'. sd' \<noteq> Player \<longrightarrow>
      \<not> colliderect (ball_rect (ball hit_game)) (pad_rect (get_paddle sd' hit_game))"
  proof (intro allI impI)
    fix sd' :: side
    assume "sd' \<noteq> Player"
    then have "sd' = AI" by (cases sd') simp_all
    with n show "\<not> colliderect (ball_rect (ball hit_game)) (pad_rect (get_paddle sd' hit_game))"
      by simp
  qed
  have h3: "DynamicColorManager_get red_manager (ball_element (ball hit_game)) = Inr (255, 100, 100)"
    by (simp add: DynamicColorManager_get_def red_manager_def to_tuple_def)
  have v: "combo_meter (player_paddle hit_game) = 2" "ball_dx (ball hit_game) = - 5"
    "particles hit_game = []"
    "rect_centerx (ball_rect (ball hit_game)) = 67" "rect_centery (ball_rect (ball hit_game)) = 297"
    by (simp_all add: hit_game_def example_ball_def example_paddle_def rect_centerx_def
        rect_centery_def)
  from collision_pass [OF h1 h2 h3, of default_constants rng_half] obtain gm' g' new where
    r: "Game_handle_collisions default_constants red_manager rng_half hit_game = Inr (gm', g')"
    and dx: "ball_dx (ball gm') = - 1.1 * ball_dx (ball hit_game)"
    and m: "combo_meter (get_paddle Player gm') = combo_meter (get_paddle Player hit_game) + 1"
    and cm: "combo_multiplier (get_paddle Player gm')
           = 1 + of_int (combo_meter (get_paddle Player gm') div 3) * 0.2"
    and ps: "particles gm' = particles hit_game @ new" and l: "length new = 20"
    and a: "\<forall>p\<in>set new. p_x p = of_int (rect_centerx (ball_rect (ball hit_game)))
           \<and> p_y p = of_int (rect_centery (ball_rect (ball hit_game)))
           \<and> p_color p = (255, 100, 100)"
    by blast
  from dx v have "ball_dx (ball gm') = 5.5" by simp
  moreover from m v have m3: "combo_meter (player_paddle gm') = 3" by (simp add: get_paddle_def)
  moreover from cm m3 have "combo_multiplier (player_paddle gm') = 1.2"
    by (simp add: get_paddle_def)
  moreover from ps v have "particles gm' = new" by simp
  moreover from a v have "\<forall>p\<in>set new. p_x p = 67 \<and> p_y p = 297 \<and> p_color p = (255, 100, 100)"
    by simp
  ultimately show ?thesis using h1 n h3 v r l by blast
qed

section \<open>The walls\<close>

lemma collide_paddle_dy:
  assumes "DynamicColorManager_get cm (ball_element (ball gm)) = Inr col"
  shows "\<exists>gm' g'. collide_paddle cm sd g gm = Inr (gm', g')
           \<and> ball_dy (ball gm') = ball_dy (ball gm)
           \<and> ball_element (ball gm') = ball_element (ball gm)"
proof (cases "colliderect (ball_rect (ball gm)) (pad_rect (get_paddle sd gm))")
  case True
  from collide_paddle_hit [OF True assms, of g] show ?thesis by auto
next
  case False
  then show ?thesis by (simp add: collide_paddle_miss)
qed

lemma Game_handle_collisions_dy:
  assumes "DynamicColorManager_get cm (ball_element (ball gm)) = Inr col"
  shows "\<exists>gm' g'. Game_handle_collisions c cm g gm = Inr (gm', g')
           \<and> ball_dy (ball gm') = ball_dy (ball (bounce_walls c gm))"
proof -
  have e: "DynamicColorManager_get cm (ball_element (ball (bounce_walls c gm))) = Inr col"
    using assms by (simp add: bounce_walls_parts)
  from collide_paddle_dy [OF e, of Player g] obtain gm1 g1 where
    c1: "collide_paddle cm Player g (bounce_walls c gm) = Inr (gm1, g1)"
    and d1: "ball_dy (ball gm1) = ball_dy (ball (bounce_walls c gm))"
    and e1: "ball_element (ball gm1) = ball_element (ball (bounce_walls c gm))" by blast
  from e e1 have "DynamicColorManager_get cm (ball_element (ball gm1)) = Inr col" by simp
  from collide_paddle_dy [OF this, of AI g1] obtain gm2 g2 where
    "collide_paddle cm AI g1 gm1 = Inr (gm2, g2)" and "ball_dy (ball gm2) = ball_dy (ball gm1)"
    by blast
  with c1 d1 show ?thesis by (simp add: Game_handle_collisions_def)
qed

lemma Ball_update_Inr:
  assumes "DynamicColorManager_get cm (ball_element b) = Inr col"
  shows "\<exists>b' g'. Ball_update cm tf g b = Inr (b', g')"
  using assms
  by (auto simp add: Ball_update_def Let_def Ball_record_trail_def Ball_move_def
      split: prod.splits)

lemma ball_frame_dy:
  assumes "DynamicColorManager_get cm (ball_element (ball gm)) = Inr col"
  shows "\<exists>gm' g'. ball_frame c cm g gm = Inr (gm', g')
     \<and> ball_dy (ball gm') =
         (if rect_top (ball_rect (Ball_move (time_factor gm) (ball gm))) \<le> 0
             \<or> rect_bottom (ball_rect (Ball_move (time_factor gm) (ball gm))) \<ge> HEIGHT c
          then - ball_dy (ball gm) else ball_dy (ball gm))"
proof -
  from Ball_update_Inr [OF assms, of "time_factor gm" g] obtain b g1 where
    u: "Ball_update cm (time_factor gm) g (ball gm) = Inr (b, g1)" by blast
  note parts = Ball_update_parts [OF u]
  from parts assms have "DynamicColorManager_get cm (ball_element (ball (gm\<lparr>ball := b\<rparr>))) = Inr col"
    by simp
  from Game_handle_collisions_dy [OF this, of c g1] obtain gm' g' where
    h: "Game_handle_collisions c cm g1 (gm\<lparr>ball := b\<rparr>) = Inr (gm', g')"
    and d: "ball_dy (ball gm') = ball_dy (ball (bounce_walls c (gm\<lparr>ball := b\<rparr>)))" by blast
  from u h have "ball_frame c cm g gm = Inr (gm', g')" by (simp add: ball_frame_def)
  with d parts show ?thesis by (simp add: bounce_walls_def)
qed

text \<open>
  C6. With time factor 1, one frame (the ball's update, then the collision pass) returns
  and turns \<open>dy = 3\<close> into \<open>dy = -3\<close> for a ball whose bottom edge is one pixel above
  the bottom wall, and \<open>dy = -3\<close> into \<open>dy = 3\<close> for a ball whose top edge is one pixel
  below the top wall. A ball one pixel below the top wall with \<open>dy = 3\<close> moves away from
  the wall and keeps \<open>dy = 3\<close>.
\<close>

theorem wall_bounce:
  assumes "DynamicColorManager_get cm (ball_element (ball gm)) = Inr col"
    and "time_factor gm = 1"
  shows "\<exists>gm' g'. ball_frame c cm g gm = Inr (gm', g')
     \<and> (rect_bottom (ball_rect (ball gm)) = HEIGHT c - 1 \<and> ball_dy (ball gm) = 3
          \<longrightarrow> ball_dy (ball gm') = - 3)
     \<and> (rect_top (ball_rect (ball gm)) = 1 \<and> ball_dy (ball gm) = - 3
          \<longrightarrow> ball_dy (ball gm') = 3)
     \<and> (rect_top (ball_rect (ball gm)) = 1 \<and> ball_dy (ball gm) = 3
          \<and> rect_bottom (ball_rect (ball gm)) < HEIGHT c - 3
          \<longrightarrow> ball_dy (ball gm') = 3)"
proof -
  from ball_frame_dy [OF assms(1), of c g] obtain gm' g' where
    f: "ball_frame c cm g gm = Inr (gm', g')"
    and d: "ball_dy (ball gm') =
         (if rect_top (ball_rect (Ball_move (time_factor gm) (ball gm))) \<le> 0
             \<or> rect_bottom (ball_rect (Ball_move (time_factor gm) (ball gm))) \<ge> HEIGHT c
          then - ball_dy (ball gm) else ball_dy (ball gm))" by blast
  have m: "ball_dy (ball gm) = of_int k \<Longrightarrow>
      rect_y (ball_rect (Ball_move (time_factor gm) (ball gm))) = rect_y (ball_rect (ball gm)) + k
      \<and> rect_h (ball_rect (Ball_move (time_factor gm) (ball gm))) = rect_h (ball_rect (ball gm))"
    for k :: int
    using assms(2) by (simp add: Ball_move_def Let_def py_int_def)
  from m [of 3] m [of "- 3"] f d show ?thesis
    by (auto simp add: rect_top_def rect_bottom_def)
qed


theorem wall_bounce_witness:
  "DynamicColorManager_get red_manager (ball_element (ball (wall_game 584 3))) = Inr (255, 100, 100)
   \<and> time_factor (wall_game 584 3) = 1
   \<and> rect_bottom (ball_rect (ball (wall_game 584 3))) = HEIGHT default_constants - 1
   \<and> ball_dy (ball (wall_game 584 3)) = 3
   \<and> (\<exists>gm' g'. ball_frame default_constants red_manager rng_half (wall_game 584 3) = Inr (gm', g')
         \<and> ball_dy (ball gm') = - 3)
   \<and> rect_top (ball_rect (ball (wall_game 1 (- 3)))) = 1
   \<and> ball_dy (ball (wall_game 1 (- 3))) = - 3
   \<and> (\<exists>gm' g'. ball_frame default_constants red_manager rng_half (wall_game 1 (- 3)) = Inr (gm', g')
         \<and> ball_dy (ball gm') = 3)
   \<and> rect_top (ball_rect (ball (wall_game 1 3))) = 1
   \<and> ball_dy (ball (wall_game 1 3)) = 3
   \<and> rect_bottom (ball_rect (ball (wall_game 1 3))) < HEIGHT default_constants - 3
   \<and> (\<exists>gm' g'. ball_frame default_constants red_manager rng_half (wall_game 1 3) = Inr (gm', g')
         \<and> ball_dy (ball gm') = 3)"
proof -
  have v: "time_factor (wall_game y d) = 1" "ball_dy (ball (wall_game y d)) = d"
    "rect_top (ball_rect (ball (wall_game y d))) = y"
    "rect_bottom (ball_rect (ball (wall_game y d))) = y + 15" for y d
    by (simp_all add: wall_game_def example_ball_def rect_top_def rect_bottom_def)
  have hd: "HEIGHT default_constants = 600" by (simp add: default_constants_def)
  from wall_bounce [where gm = "wall_game 584 3" and c = default_constants and g = rng_half,
      OF red_get v(1)]
  have a: "\<exists>gm' g'. ball_frame default_constants red_manager rng_half (wall_game 584 3) = Inr (gm', g')
         \<and> ball_dy (ball gm') = - 3"
    by (simp add: v hd)
  from wall_bounce [where gm = "wall_game 1 (- 3)" and c = default_constants and g = rng_half,
      OF red_get v(1)]
  have b: "\<exists>gm' g'. ball_frame default_constants red_manager rng_half (wall_game 1 (- 3)) = Inr (gm', g')
         \<and> ball_dy (ball gm') = 3"
    by (simp add: v hd)
  from wall_bounce [where gm = "wall_game 1 3" and c = default_constants and g = rng_half,
      OF red_get v(1)]
  have c: "\<exists>gm' g'. ball_frame default_constants red_manager rng_half (wall_game 1 3) = Inr (gm', g')
         \<and> ball_dy (ball gm') = 3"
    by (simp add: v hd)
  from a b c show ?thesis by (simp add: v hd red_get)
qed

text \<open>
  The scenario as the claim has it, with the default constants: the ball one pixel from
  the top wall, inside the screen (\<open>top = 1\<close>) or outside (\<open>top = -1\<close>), with
  \<open>dy = 3\<close>. After the frame \<open>dy\<close> is still 3.
\<close>

theorem top_wall_dy3_counterexample:
  "rect_top (ball_rect (ball (wall_game 1 3))) = 1
   \<and> ball_dy (ball (wall_game 1 3)) = 3
   \<and> time_factor (wall_game 1 3) = 1
   \<and> map_sum id (ball_dy \<circ> ball \<circ> fst)
        (ball_frame default_constants red_manager rng_half (wall_game 1 3)) = Inr 3
   \<and> rect_top (ball_rect (ball (wall_game (- 1) 3))) = - 1
   \<and> map_sum id (ball_dy \<circ> ball \<circ> fst)
        (ball_frame default_constants red_manager rng_half (wall_game (- 1) 3)) = Inr 3"
  by (simp add: wall_game_def example_ball_def example_paddle_def default_constants_def
      ball_frame_def Game_handle_collisions_def bounce_walls_def collide_paddle_def
      colliderect_def get_paddle_def update_particles_def eval_defs)

section \<open>The combo multiplier\<close>

text \<open>
  C2. The multiplier is not always \<open>1 + (meter div 3) * 0.2\<close>: the collision pass
  recomputes it when it changes the meter, the scoring pass resets the meter and leaves
  the multiplier. In the example the player's paddle has meter 3 and multiplier 1.2 when
  the ball leaves on the left; after the scoring pass the meter is 0 and the multiplier
  is still 1.2.
\<close>

theorem stale_multiplier_after_score:
  "combo_meter (player_paddle left_exit_game) = 3
   \<and> combo_multiplier (player_paddle left_exit_game) = 1 + of_int (3 div 3) * 0.2
   \<and> (\<exists>gm' g'.
        Game_update_game_state default_constants rng_half left_exit_game = Inr (gm', g')
        \<and> combo_meter (player_paddle gm') = 0
        \<and> combo_multiplier (player_paddle gm') = 1.2
        \<and> combo_multiplier (player_paddle gm')
            \<noteq> 1 + of_int (combo_meter (player_paddle gm') div 3) * 0.2)"
  by (simp add: example_defs Game_update_game_state_def incr_score_def eval_defs)

section \<open>The paddles and the screen\<close>

lemma player_paddle_stays_inside:
  assumes "rect_h (pad_rect p) = 90" and "rect_y (pad_rect p) mod 5 = 0"
    and "0 \<le> rect_top (pad_rect p)" and "rect_bottom (pad_rect p) \<le> 600"
  shows "rect_h (pad_rect (Paddle_player_move default_constants ks p)) = 90
     \<and> rect_y (pad_rect (Paddle_player_move default_constants ks p)) mod 5 = 0
     \<and> 0 \<le> rect_top (pad_rect (Paddle_player_move default_constants ks p))
     \<and> rect_bottom (pad_rect (Paddle_player_move default_constants ks p)) \<le> 600"
proof -
  from assms have "\<exists>k. rect_y (pad_rect p) = 5 * k" by presburger
  then obtain k where k: "rect_y (pad_rect p) = 5 * k" by blast
  with assms show ?thesis
    by (auto simp add: Paddle_player_move_def move_y_def rect_top_def rect_bottom_def
        default_constants_def Let_def)
qed

text \<open>
  C5. The opponent's paddle leaves the screen. It starts at \<open>y = 255\<close> and moves by
  7; with the ball at the top wall, 36 moves bring it to \<open>y = 3\<close>, where the guard
  \<open>top > 0\<close> still holds, and the next update moves it to \<open>y = -4\<close>.
\<close>

theorem ai_paddle_leaves_screen:
  "map_sum id (pad_rect \<circ> ai_paddle \<circ> fst) (Game_init default_constants rng_half)
       = Inr \<lparr>rect_x = 735, rect_y = 255, rect_w = 15, rect_h = 90\<rparr>
   \<and> rect_top (pad_rect ((Paddle_ai_move default_constants top_ball ^^ 36)
                 (example_paddle 735 255 True 0 1))) = 3
   \<and> rect_top (pad_rect (Paddle_ai_move default_constants top_ball
                 (example_paddle 735 3 True 0 1))) = - 4
   \<and> map_sum id (rect_top \<circ> pad_rect \<circ> fst)
        (Paddle_update default_constants red_manager \<lparr>K_w = False, K_s = False, K_LSHIFT = False\<rparr>
           top_ball rng_half (example_paddle 735 3 True 0 1)) = Inr (- 4)"
  by (simp add: top_ball_def example_ball_def example_paddle_def default_constants_def
      Paddle_update_def Paddle_update_particles_def Paddle_ai_move_def move_y_def
      Game_init_def Paddle_init_def update_particles_def eval_defs eval_nat_numeral)

section \<open>The colour cycler\<close>








lemma valid_manager_iff:
  "valid_manager c m \<longleftrightarrow> (\<forall>e\<in>set (ELEMENTS c). \<exists>col. colors m e = Some col \<and> valid_color col)"
  by (auto simp add: valid_manager_def list_all_iff split: option.splits)




lemma Color_random_valid:
  assumes "\<forall>n. 0 \<le> g n"
  shows "valid_color (fst (Color_random g)) \<and> (\<forall>n. 0 \<le> snd (Color_random g) n)"
  using assms
  by (simp add: Color_random_def random_randint_def random_random_def valid_color_def
      split: prod.splits)

lemma init_colors_valid:
  assumes "\<forall>n. 0 \<le> g n"
    and "\<forall>e\<in>S. \<exists>col. m e = Some col \<and> valid_color col"
  shows "\<forall>e\<in>S \<union> set es. \<exists>col. fst (init_colors es m g) e = Some col \<and> valid_color col"
  using assms
proof (induction es arbitrary: m g S)
  case Nil
  then show ?case by simp
next
  case (Cons x es)
  obtain col g1 where cr: "Color_random g = (col, g1)" by (cases "Color_random g")
  with Color_random_valid [OF Cons.prems(1)] have v: "valid_color col" and g1: "\<forall>n. 0 \<le> g1 n"
    by simp_all
  have "\<forall>e\<in>insert x S. \<exists>c. (m(x \<mapsto> col)) e = Some c \<and> valid_color c"
    using Cons.prems(2) v by simp
  from Cons.IH [OF g1 this]
  have "\<forall>e\<in>insert x S \<union> set es.
          \<exists>c. fst (init_colors es (m(x \<mapsto> col)) g1) e = Some c \<and> valid_color c" .
  moreover have "init_colors (x # es) m g = init_colors es (m(x \<mapsto> col)) g1"
    using cr by simp
  ultimately show ?case by (simp only: set_simps Un_insert_left Un_insert_right)
qed

lemma DynamicColorManager_init_valid:
  assumes "\<forall>n. 0 \<le> g n"
  shows "valid_manager c (fst (DynamicColorManager_init c g))
       \<and> shift (fst (DynamicColorManager_init c g)) = 0"
  using init_colors_valid [OF assms, of "{}" Map.empty "ELEMENTS c"]
  by (auto simp add: DynamicColorManager_init_def valid_manager_iff split: prod.splits)








section \<open>Loading the configuration\<close>

lemma module_constants_empty: "module_constants Map.empty = Some default_constants"
  by (simp add: module_constants_def CONFIG_get_def default_constants_def)

text \<open>
  C8. When the settings file is missing, \<^verbatim>\<open>load_config\<close> logs one line at error
  level and returns the empty dictionary, from which every module constant takes its
  built-in default. Any other exception of \<^verbatim>\<open>open\<close> or of the parser leaves
  \<^verbatim>\<open>load_config\<close> with nothing logged.
\<close>

theorem missing_config_recovers:
  "load_config (Inl FileNotFoundError) json_load =
     (Inr Map.empty, [(ERROR, ''Config file not found. Using default settings.'')])
   \<and> module_constants Map.empty =
       Some \<lparr>WIDTH = 800, HEIGHT = 600, FPS = 60, PADDLE_WIDTH = 15, PADDLE_HEIGHT = 90,
             BALL_SIZE = 15, AI_SPEED = 7,
             ELEMENTS = [''Fire'', ''Water'', ''Earth'', ''Air'', ''Void'', ''Time'']\<rparr>
   \<and> (\<forall>e. e \<noteq> FileNotFoundError \<longrightarrow> load_config (Inl e) json_load = (Inl e, []))
   \<and> (\<forall>txt e. json_load txt = Inl e \<and> e \<noteq> FileNotFoundError \<longrightarrow>
         load_config (Inr txt) json_load = (Inl e, []))"
  by (simp add: load_config_def module_constants_def CONFIG_get_def)

theorem missing_config_recovers_witness:
  "PermissionError \<noteq> FileNotFoundError
   \<and> load_config (Inl PermissionError) empty_json = (Inl PermissionError, [])
   \<and> bad_json ''{'' = Inl JSONDecodeError \<and> JSONDecodeError \<noteq> FileNotFoundError
   \<and> load_config (Inr ''{'') bad_json = (Inl JSONDecodeError, [])
   \<and> load_config (Inl FileNotFoundError) empty_json =
        (Inr Map.empty, [(ERROR, ''Config file not found. Using default settings.'')])"
  using missing_config_recovers [of empty_json] missing_config_recovers [of bad_json]
  by (simp add: bad_json_def)

text \<open>A settings file that exists and cannot be read: the exception propagates.\<close>

theorem unreadable_config_counterexample:
  "fst (load_config (Inl PermissionError) empty_json) = Inl PermissionError
   \<and> fst (load_config (Inl PermissionError) empty_json) \<noteq> Inr Map.empty"
  by (simp add: load_config_def)

section \<open>Particle expiry\<close>






end
